theory Spec2Isabelle
  imports Complex_Main "HOL-Library.Sublist"
begin

section \<open>Python values, exceptions and floats\<close>

text \<open>
  Both tools work on values decoded from JSON. A decoded value is a \<open>pyval\<close>; an object
  is an association list in key order (the decoder keeps one entry per key). A raised
  exception is the \<open>Inl\<close> branch of a sum; the message of an exception raised by the
  repository is its literal text, the message of one raised by the Python library is
  abbreviated to its fixed part.

  A Python float is a \<open>pyfloat\<close>: a finite value, an infinity or NaN. Finite values are
  exact reals: the rounding of a result to the nearest double is not modelled, the overflow
  of a result to an infinity is (\<open>to_double\<close>). JSON numbers are finite, so a decoded float
  carries a real.
\<close>

datatype exn =
    RequestException string
  | ValueError string
  | TypeError string
  | KeyError string
  | AttributeError string
  | OverflowError string

datatype pyfloat = Fin real | PInf | NInf | NaN

datatype pyval =
    PNone
  | PBool bool
  | PInt int
  | PFloat real
  | PStr string
  | PList "pyval list"
  | PDict "(string \<times> pyval) list"

text \<open>The least magnitude that rounds to an infinity in binary64.\<close>

definition DBL_OVERFLOW :: real where
  "DBL_OVERFLOW = 2 ^ 1024 - 2 ^ 970"

definition to_double :: "real \<Rightarrow> pyfloat" where
  "to_double r = (if DBL_OVERFLOW \<le> r then PInf
                  else if r \<le> - DBL_OVERFLOW then NInf else Fin r)"

text \<open>\<open>float(i)\<close> for an int: raises OverflowError when the int is out of double range.\<close>

definition float_of_int :: "int \<Rightarrow> exn + pyfloat" where
  "float_of_int i = (if DBL_OVERFLOW \<le> \<bar>real_of_int i\<bar>
                     then Inl (OverflowError ''int too large to convert to float'')
                     else Inr (Fin (real_of_int i)))"

text \<open>\<open>round(x)\<close> for a float: half to even; raises on an infinity and on NaN.\<close>

definition round_half_even :: "real \<Rightarrow> int" where
  "round_half_even r = (let f = \<lfloor>r\<rfloor>; d = r - of_int f in
     if d < 1 / 2 then f else if 1 / 2 < d then f + 1
     else if even f then f else f + 1)"

fun py_round :: "pyfloat \<Rightarrow> exn + int" where
  "py_round (Fin r) = Inr (round_half_even r)"
| "py_round PInf = Inl (OverflowError ''cannot convert float infinity to integer'')"
| "py_round NInf = Inl (OverflowError ''cannot convert float infinity to integer'')"
| "py_round NaN = Inl (ValueError ''cannot convert float NaN to integer'')"

subsection \<open>Strings\<close>

text \<open>
  Strings are lists of 8-bit characters (code points below 256). \<open>str.strip()\<close>
  removes the characters for which \<open>str.isspace()\<close> holds; \<open>str.lower()\<close> maps
  the upper-case letters of that range to lower case.
\<close>

definition py_isspace :: "char \<Rightarrow> bool" where
  "py_isspace c = (let n = (of_char c :: nat) in
     (9 \<le> n \<and> n \<le> 13) \<or> (28 \<le> n \<and> n \<le> 32) \<or> n = 133 \<or> n = 160)"

definition py_strip :: "string \<Rightarrow> string" where
  "py_strip s = rev (dropWhile py_isspace (rev (dropWhile py_isspace s)))"

definition py_lower_char :: "char \<Rightarrow> char" where
  "py_lower_char c =
     (case map_of (zip ''ABCDEFGHIJKLMNOPQRSTUVWXYZ'' ''abcdefghijklmnopqrstuvwxyz'') c of
        Some l \<Rightarrow> l
      | None \<Rightarrow>
          (let n = (of_char c :: nat) in
           if 192 \<le> n \<and> n \<le> 222 \<and> n \<noteq> 215 then char_of (n + 32) else c))"

definition py_lower :: "string \<Rightarrow> string" where
  "py_lower s = map py_lower_char s"

subsection \<open>\<open>float(s)\<close> for a string\<close>

text \<open>
  The literal grammar of the built-in: surrounding whitespace is ignored; an underscore
  may stand between two digits; an optional sign is followed by \<open>inf\<close>,
  \<open>infinity\<close> or \<open>nan\<close> in any case, or by a decimal number with an optional
  fraction and exponent. \<open>None\<close> is the ValueError of the built-in.
\<close>

definition is_digit :: "char \<Rightarrow> bool" where
  "is_digit c = (let n = (of_char c :: nat) in 48 \<le> n \<and> n \<le> 57)"

definition digit_of :: "char \<Rightarrow> nat" where
  "digit_of c = of_char c - 48"

definition digits_val :: "string \<Rightarrow> nat" where
  "digits_val ds = foldl (\<lambda>acc c. 10 * acc + digit_of c) 0 ds"

fun strip_underscores :: "char option \<Rightarrow> string \<Rightarrow> string option" where
  "strip_underscores prev [] = (if prev = Some CHR ''_'' then None else Some [])"
| "strip_underscores prev (c # cs) =
     (if c = CHR ''_'' then
        (case prev of Some p \<Rightarrow> if is_digit p then strip_underscores (Some c) cs else None
                    | None \<Rightarrow> None)
      else if prev = Some CHR ''_'' \<and> \<not> is_digit c then None
      else map_option ((#) c) (strip_underscores (Some c) cs))"

definition split_sign :: "string \<Rightarrow> bool \<times> string" where
  "split_sign s = (case s of
       c # cs \<Rightarrow> if c = CHR ''-'' then (True, cs) else if c = CHR ''+'' then (False, cs)
                 else (False, s)
     | [] \<Rightarrow> (False, s))"

definition parse_exponent :: "string \<Rightarrow> (bool \<times> nat) option" where
  "parse_exponent s = (case s of
       [] \<Rightarrow> Some (False, 0)
     | c # cs \<Rightarrow>
         if c = CHR ''e'' \<or> c = CHR ''E'' then
           (let (neg, ds) = split_sign cs in
            if ds \<noteq> [] \<and> list_all is_digit ds then Some (neg, digits_val ds) else None)
         else None)"

definition parse_decimal :: "string \<Rightarrow> real option" where
  "parse_decimal s =
     (let ip = takeWhile is_digit s; r1 = dropWhile is_digit s;
          (fp, r2) = (case r1 of
              c # cs \<Rightarrow> if c = CHR ''.'' then (takeWhile is_digit cs, dropWhile is_digit cs)
                        else ([], r1)
            | [] \<Rightarrow> ([], r1))
      in if ip = [] \<and> fp = [] then None
         else (case parse_exponent r2 of
                 None \<Rightarrow> None
               | Some (neg, e) \<Rightarrow>
                   Some (real (digits_val (ip @ fp)) / 10 ^ length fp
                         * (if neg then 1 / 10 ^ e else 10 ^ e))))"

definition float_of_str :: "string \<Rightarrow> pyfloat option" where
  "float_of_str s =
     (case strip_underscores None (py_strip s) of
        None \<Rightarrow> None
      | Some t \<Rightarrow>
          (let (neg, body) = split_sign t; word = py_lower body in
           if word = ''inf'' \<or> word = ''infinity'' then Some (if neg then NInf else PInf)
           else if word = ''nan'' then Some NaN
           else (case parse_decimal body of
                   None \<Rightarrow> None
                 | Some r \<Rightarrow> Some (to_double (if neg then - r else r)))))"

section \<open>Attribute coercion (download\_nigeria\_settlements.py)\<close>

text \<open>
  \<open>_safe_float\<close>: None gives None; an int or float (a bool is an int) goes through
  \<open>float(value)\<close> outside the try block; a string is stripped and the empty string and
  the words na, n/a, nan give None; everything else goes through \<open>float(value)\<close>
  inside the try block, where TypeError and ValueError give None.
\<close>

definition safe_float :: "pyval \<Rightarrow> exn + pyfloat option" where
  "safe_float v = (case v of
       PNone \<Rightarrow> Inr None
     | PBool b \<Rightarrow> Inr (Some (Fin (if b then 1 else 0)))
     | PInt i \<Rightarrow> (case float_of_int i of Inl e \<Rightarrow> Inl e | Inr f \<Rightarrow> Inr (Some f))
     | PFloat r \<Rightarrow> Inr (Some (Fin r))
     | PStr s \<Rightarrow>
         (let t = py_strip s in
          if t = [] \<or> py_lower t \<in> set [''na'', ''n/a'', ''nan''] then Inr None
          else Inr (float_of_str t))
     | PList xs \<Rightarrow> Inr None
     | PDict kvs \<Rightarrow> Inr None)"

text \<open>\<open>_safe_int\<close>: \<open>int(round(number))\<close> when \<open>_safe_float\<close> gives a number.\<close>

definition safe_int :: "pyval \<Rightarrow> exn + int option" where
  "safe_int v = (case safe_float v of
       Inl e \<Rightarrow> Inl e
     | Inr None \<Rightarrow> Inr None
     | Inr (Some number) \<Rightarrow>
         (case py_round number of Inl e \<Rightarrow> Inl e | Inr n \<Rightarrow> Inr (Some n)))"


subsection \<open>Dates: \<open>datetime.strptime\<close> and \<open>strftime\<close>\<close>

text \<open>
  A parsed date is (year, month, day). \<open>strptime\<close> compiles a format to a regular
  expression, takes the first match in the order of its alternatives, and fails when the
  match does not consume the whole string or the fields are no calendar date. The
  directives used here are \<open>%Y\<close> (four digits), \<open>%m\<close>
  (\<open>1[0-2]|0[1-9]|[1-9]\<close>) and \<open>%d\<close>
  (\<open>3[0-1]|[1-2]\d|0[1-9]|[1-9]| [1-9]\<close>). An alternative is tried by
  \<open>match_alts\<close>, all matches of a format in priority order are \<open>match_items\<close>.
\<close>

type_synonym date = "nat \<times> nat \<times> nat"

datatype fmt_item = DirY | DirM | DirD | Lit char

definition in_range :: "char \<Rightarrow> char \<Rightarrow> char \<Rightarrow> bool" where
  "in_range lo hi c = ((of_char lo :: nat) \<le> of_char c \<and> (of_char c :: nat) \<le> of_char hi)"

text \<open>One alternative is a list of character classes, each a pair of bounds.\<close>

fun match_classes :: "(char \<times> char) list \<Rightarrow> string \<Rightarrow> (string \<times> string) option" where
  "match_classes [] s = Some ([], s)"
| "match_classes ((lo, hi) # ks) [] = None"
| "match_classes ((lo, hi) # ks) (c # cs) =
     (if in_range lo hi c
      then map_option (\<lambda>(m, r). (c # m, r)) (match_classes ks cs) else None)"

definition match_alts :: "(char \<times> char) list list \<Rightarrow> string \<Rightarrow> (nat \<times> string) list" where
  "match_alts alts s =
     List.map_filter (\<lambda>alt. map_option (\<lambda>(m, r). (digits_val (dropWhile py_isspace m), r))
                                 (match_classes alt s)) alts"

definition year_alts :: "(char \<times> char) list list" where
  "year_alts = [[(CHR ''0'', CHR ''9''), (CHR ''0'', CHR ''9''),
                 (CHR ''0'', CHR ''9''), (CHR ''0'', CHR ''9'')]]"

definition month_alts :: "(char \<times> char) list list" where
  "month_alts = [[(CHR ''1'', CHR ''1''), (CHR ''0'', CHR ''2'')],
                 [(CHR ''0'', CHR ''0''), (CHR ''1'', CHR ''9'')],
                 [(CHR ''1'', CHR ''9'')]]"

definition day_alts :: "(char \<times> char) list list" where
  "day_alts = [[(CHR ''3'', CHR ''3''), (CHR ''0'', CHR ''1'')],
               [(CHR ''1'', CHR ''2''), (CHR ''0'', CHR ''9'')],
               [(CHR ''0'', CHR ''0''), (CHR ''1'', CHR ''9'')],
               [(CHR ''1'', CHR ''9'')],
               [(CHR '' '', CHR '' ''), (CHR ''1'', CHR ''9'')]]"

fun match_items :: "fmt_item list \<Rightarrow> string \<Rightarrow> date \<Rightarrow> (date \<times> string) list" where
  "match_items [] s dt = [(dt, s)]"
| "match_items (DirY # its) s (y, m, d) =
     concat (map (\<lambda>(v, r). match_items its r (v, m, d)) (match_alts year_alts s))"
| "match_items (DirM # its) s (y, m, d) =
     concat (map (\<lambda>(v, r). match_items its r (y, v, d)) (match_alts month_alts s))"
| "match_items (DirD # its) s (y, m, d) =
     concat (map (\<lambda>(v, r). match_items its r (y, m, v)) (match_alts day_alts s))"
| "match_items (Lit c # its) s dt =
     (case s of [] \<Rightarrow> [] | x # xs \<Rightarrow> if x = c then match_items its xs dt else [])"

definition is_leap :: "nat \<Rightarrow> bool" where
  "is_leap y = (if y mod 100 = 0 then y mod 400 = 0 else y mod 4 = 0)"

definition days_in_month :: "nat \<Rightarrow> nat \<Rightarrow> nat" where
  "days_in_month y m =
     (if m = 2 then (if is_leap y then 29 else 28)
      else if m \<in> set [4, 6, 9, 11] then 30 else 31)"

definition valid_date :: "date \<Rightarrow> bool" where
  "valid_date dt = (case dt of (y, m, d) \<Rightarrow>
     1 \<le> y \<and> y \<le> 9999 \<and> 1 \<le> m \<and> m \<le> 12 \<and> 1 \<le> d \<and> d \<le> days_in_month y m)"

definition strptime :: "string \<Rightarrow> fmt_item list \<Rightarrow> date option" where
  "strptime s fmt = (case match_items fmt s (1900, 1, 1) of
       [] \<Rightarrow> None
     | (dt, rest) # others \<Rightarrow> if rest = [] \<and> valid_date dt then Some dt else None)"

definition digit_char :: "nat \<Rightarrow> char" where
  "digit_char n = ''0123456789'' ! (n mod 10)"

text \<open>
  \<open>strftime("%d.%m.%Y")\<close>: day and month on two digits, the year on four (a C library
  that does not pad \<open>%Y\<close> prints a year below 1000 shorter).
\<close>

definition strftime_dmy :: "date \<Rightarrow> string" where
  "strftime_dmy dt = (case dt of (y, m, d) \<Rightarrow>
     [digit_char (d div 10), digit_char d, CHR ''.'',
      digit_char (m div 10), digit_char m, CHR ''.'',
      digit_char (y div 1000), digit_char (y div 100), digit_char (y div 10), digit_char y])"

definition date_formats :: "fmt_item list list" where
  "date_formats =
     [[DirY, Lit CHR ''-'', DirM, Lit CHR ''-'', DirD],
      [DirD, Lit CHR ''-'', DirM, Lit CHR ''-'', DirY],
      [DirY, Lit CHR ''/'', DirM, Lit CHR ''/'', DirD],
      [DirD, Lit CHR ''.'', DirM, Lit CHR ''.'', DirY]]"

text \<open>Truth value of a decoded value (\<open>not v\<close>, \<open>v or w\<close>).\<close>

fun py_truthy :: "pyval \<Rightarrow> bool" where
  "py_truthy PNone = False"
| "py_truthy (PBool b) = b"
| "py_truthy (PInt i) = (i \<noteq> 0)"
| "py_truthy (PFloat r) = (r \<noteq> 0)"
| "py_truthy (PStr s) = (s \<noteq> [])"
| "py_truthy (PList xs) = (xs \<noteq> [])"
| "py_truthy (PDict kvs) = (kvs \<noteq> [])"

definition py_or :: "pyval \<Rightarrow> pyval \<Rightarrow> pyval" where
  "py_or a b = (if py_truthy a then a else b)"

text \<open>
  The loop of \<open>_format_date\<close> over the four formats: the first format that parses
  ends the loop.
\<close>

fun try_formats :: "fmt_item list list \<Rightarrow> string \<Rightarrow> date option" where
  "try_formats [] t = None"
| "try_formats (fmt # fmts) t =
     (case strptime t fmt of Some dt \<Rightarrow> Some dt | None \<Rightarrow> try_formats fmts t)"

definition render_date :: "date \<Rightarrow> string \<times> int option" where
  "render_date dt = (strftime_dmy dt, Some (int (fst dt)))"

text \<open>
  \<open>_format_date\<close>. \<open>datetime.fromisoformat\<close> accepts a grammar that depends on the
  interpreter's version, so it is the parameter \<open>fromiso\<close> (\<open>None\<close> is its
  ValueError). A value that is true and no string has no \<open>strip\<close> method.
\<close>

definition format_date ::
  "(string \<Rightarrow> date option) \<Rightarrow> pyval \<Rightarrow> exn + (string \<times> int option)" where
  "format_date fromiso raw_value =
     (if \<not> py_truthy raw_value then Inr (''Unknown'', None)
      else (case raw_value of
          PStr raw \<Rightarrow>
            (let stripped = py_strip raw in
             if stripped = [] then Inr (''Unknown'', None)
             else
               (let t = (if CHR ''T'' \<in> set stripped
                         then takeWhile (\<lambda>c. c \<noteq> CHR ''T'') stripped else stripped) in
                case try_formats date_formats t of
                  Some dt \<Rightarrow> Inr (render_date dt)
                | None \<Rightarrow>
                    (case fromiso t of
                       None \<Rightarrow> Inr (raw, None)
                     | Some dt \<Rightarrow> Inr (render_date dt))))
        | other \<Rightarrow> Inl (AttributeError ''object has no attribute strip'')))"


subsection \<open>Dynamic operations on decoded values\<close>

text \<open>\<open>d.get(key, default)\<close>: only a dict has the method.\<close>

definition py_get :: "pyval \<Rightarrow> string \<Rightarrow> pyval \<Rightarrow> exn + pyval" where
  "py_get d key dflt = (case d of
       PDict kvs \<Rightarrow> Inr (case map_of kvs key of Some v \<Rightarrow> v | None \<Rightarrow> dflt)
     | other \<Rightarrow> Inl (AttributeError ''object has no attribute get''))"

text \<open>Iteration: a list gives its elements, a string its characters, a dict its keys.\<close>

definition py_iter :: "pyval \<Rightarrow> exn + pyval list" where
  "py_iter v = (case v of
       PList xs \<Rightarrow> Inr xs
     | PStr cs \<Rightarrow> Inr (map (\<lambda>c. PStr [c]) cs)
     | PDict kvs \<Rightarrow> Inr (map (\<lambda>kv. PStr (fst kv)) kvs)
     | other \<Rightarrow> Inl (TypeError ''object is not iterable''))"

text \<open>The target \<open>a, b\<close> of a \<open>for\<close> loop or an assignment.\<close>

definition unpack2 :: "pyval \<Rightarrow> exn + (pyval \<times> pyval)" where
  "unpack2 v = (case py_iter v of
       Inl e \<Rightarrow> Inl (TypeError ''cannot unpack non-iterable object'')
     | Inr xs \<Rightarrow>
         (case xs of
            [a, b] \<Rightarrow> Inr (a, b)
          | other \<Rightarrow>
              Inl (ValueError (if length xs < 2 then ''not enough values to unpack''
                               else ''too many values to unpack''))))"

text \<open>\<open>float(v)\<close> for any decoded value.\<close>

definition py_float :: "pyval \<Rightarrow> exn + pyfloat" where
  "py_float v = (case v of
       PStr s \<Rightarrow> (case float_of_str s of
                    Some f \<Rightarrow> Inr f
                  | None \<Rightarrow> Inl (ValueError ''could not convert string to float''))
     | PInt i \<Rightarrow> float_of_int i
     | PBool b \<Rightarrow> Inr (Fin (if b then 1 else 0))
     | PFloat r \<Rightarrow> Inr (Fin r)
     | other \<Rightarrow> Inl (TypeError ''float() argument must be a string or a real number''))"

text \<open>
  Float comparison and product. NaN differs from every float; two tuples are compared
  item by item, and an object is never found different from itself.
\<close>

definition float_ne :: "pyfloat \<Rightarrow> pyfloat \<Rightarrow> bool" where
  "float_ne a b = (if a = NaN then True else if b = NaN then True else a \<noteq> b)"

definition point_ne :: "pyfloat \<times> pyfloat \<Rightarrow> pyfloat \<times> pyfloat \<Rightarrow> bool" where
  "point_ne p q = (if float_ne (fst p) (fst q) then True else float_ne (snd p) (snd q))"

fun float_sign :: "pyfloat \<Rightarrow> real" where
  "float_sign (Fin r) = sgn r"
| "float_sign PInf = 1"
| "float_sign NInf = - 1"
| "float_sign NaN = 0"

definition float_mul :: "pyfloat \<Rightarrow> pyfloat \<Rightarrow> pyfloat" where
  "float_mul a b = (case (a, b) of
       (Fin x, Fin y) \<Rightarrow> to_double (x * y)
     | (NaN, other) \<Rightarrow> NaN
     | (other, NaN) \<Rightarrow> NaN
     | other \<Rightarrow>
         (let sg = float_sign a * float_sign b in
          if sg = 0 then NaN else if 0 < sg then PInf else NInf))"

section \<open>The settlement page (download\_nigeria\_settlements.py)\<close>

text \<open>
  \<open>SETTLEMENT_RE\<close> and \<open>SHAPE_RE\<close> are a literal opening, a lazy \<open>.*?\<close>
  that also crosses line ends, and a literal closing; the group is everything but the
  variable prefix and the final semicolon. The leftmost match starts at the first
  occurrence of the opening and ends at the first closing after it.
\<close>

fun split_on :: "string \<Rightarrow> string \<Rightarrow> (string \<times> string) option" where
  "split_on pat [] = (if pat = [] then Some ([], []) else None)"
| "split_on pat (c # cs) =
     (if prefix pat (c # cs) then Some ([], drop (length pat) (c # cs))
      else map_option (\<lambda>(before, after). (c # before, after)) (split_on pat cs))"

definition regex_group :: "string \<Rightarrow> string \<Rightarrow> string \<Rightarrow> string \<Rightarrow> string option" where
  "regex_group var opening closing html =
     (case split_on (var @ opening) html of
        None \<Rightarrow> None
      | Some (before, rest) \<Rightarrow>
          (case split_on (closing @ '';'') rest of
             None \<Rightarrow> None
           | Some (body, after) \<Rightarrow> Some (opening @ body @ closing)))"

definition SETTLEMENT_RE :: "string \<Rightarrow> string option" where
  "SETTLEMENT_RE = regex_group ''var settlement = '' ''{'' ''}''"

definition SHAPE_RE :: "string \<Rightarrow> string option" where
  "SHAPE_RE = regex_group ''var shape = '' ''[['' '']]''"

text \<open>The loop over the coordinate array: (lat, lon) strings become (lon, lat) floats.\<close>

fun shape_loop ::
  "pyval list \<Rightarrow> (pyfloat \<times> pyfloat) list \<Rightarrow> exn + (pyfloat \<times> pyfloat) list" where
  "shape_loop [] geometry = Inr geometry"
| "shape_loop (item # items) geometry =
     (case unpack2 item of
        Inl e \<Rightarrow> Inl e
      | Inr (lat_str, lon_str) \<Rightarrow>
          (case py_float lat_str of
             Inl e \<Rightarrow> Inl e
           | Inr lat \<Rightarrow>
               (case py_float lon_str of
                  Inl e \<Rightarrow> Inl e
                | Inr lon \<Rightarrow> shape_loop items (geometry @ [(lon, lat)]))))"

text \<open>
  Lines 179 to 180: a ring that is not empty and whose first and last point differ gets
  its first point appended. In a ring of one point both are the same object.
\<close>

definition close_ring :: "(pyfloat \<times> pyfloat) list \<Rightarrow> (pyfloat \<times> pyfloat) list" where
  "close_ring geometry =
     (if geometry \<noteq> [] \<and> length geometry \<noteq> 1 \<and> point_ne (hd geometry) (last geometry)
      then geometry @ [hd geometry] else geometry)"

text \<open>
  \<open>parse_settlement_page\<close>. \<open>json.loads\<close> is the parameter \<open>loads\<close>
  (\<open>Inl\<close> is the message of its JSONDecodeError, a ValueError).
\<close>

definition parse_settlement_page ::
  "(string \<Rightarrow> string + pyval) \<Rightarrow> string \<Rightarrow> exn + (pyval \<times> (pyfloat \<times> pyfloat) list)" where
  "parse_settlement_page loads html =
     (case SETTLEMENT_RE html of
        None \<Rightarrow> Inl (ValueError ''Could not locate settlement payload in page'')
      | Some settlement_match \<Rightarrow>
          (case loads settlement_match of
             Inl msg \<Rightarrow> Inl (ValueError msg)
           | Inr payload \<Rightarrow>
               (case SHAPE_RE html of
                  None \<Rightarrow> Inl (ValueError ''Could not locate geometry payload in page'')
                | Some shape_match \<Rightarrow>
                    (case loads shape_match of
                       Inl msg \<Rightarrow> Inl (ValueError msg)
                     | Inr shape_raw \<Rightarrow>
                         (case py_iter shape_raw of
                            Inl e \<Rightarrow> Inl e
                          | Inr items \<Rightarrow>
                              (case shape_loop items [] of
                                 Inl e \<Rightarrow> Inl e
                               | Inr geometry \<Rightarrow> Inr (payload, close_ring geometry)))))))"


section \<open>The batch (download\_nigeria\_settlements.py)\<close>

record SettlementRecord =
  settlement_id :: string
  city :: string
  name :: string
  country :: string
  url :: string

record ParsedSettlement =
  rec_id :: nat
  p_city :: string
  p_name :: string
  last_updated :: string
  year :: "int option"
  population :: "int option"
  area_acres :: "pyfloat option"
  structures :: "int option"
  geometry :: "(pyfloat \<times> pyfloat) list"

record response =
  status_code :: int
  body :: string

text \<open>\<open>_safe_float(...) or 0\<close>: None and zero give 0.\<close>

definition or_zero :: "pyfloat option \<Rightarrow> pyfloat" where
  "or_zero v = (case v of None \<Rightarrow> Fin 0 | Some f \<Rightarrow> f)"

text \<open>
  Lines 217 to 222: the population estimate when it is positive, else the rounded product
  of the households and the household size when that is positive, else None.
\<close>

definition derive_population :: "pyval \<Rightarrow> exn + int option" where
  "derive_population payload =
     (case py_get payload ''section_C/C11_Population_Estimate'' PNone of
        Inl e \<Rightarrow> Inl e
      | Inr estimate \<Rightarrow>
     (case safe_int estimate of
        Inl e \<Rightarrow> Inl e
      | Inr pop \<Rightarrow>
          if (case pop of None \<Rightarrow> True | Some n \<Rightarrow> n \<le> 0) then
            (case py_get payload ''section_C/C9_Households'' PNone of
               Inl e \<Rightarrow> Inl e
             | Inr hv \<Rightarrow>
            (case safe_float hv of
               Inl e \<Rightarrow> Inl e
             | Inr households \<Rightarrow>
            (case py_get payload ''section_C/C10_Household_Size'' PNone of
               Inl e \<Rightarrow> Inl e
             | Inr sv \<Rightarrow>
            (case safe_float sv of
               Inl e \<Rightarrow> Inl e
             | Inr hh_size \<Rightarrow>
            (case py_round (float_mul (or_zero households) (or_zero hh_size)) of
               Inl e \<Rightarrow> Inl e
             | Inr computed \<Rightarrow> Inr (if 0 < computed then Some computed else None))))))
          else Inr pop))"

text \<open>Lines 212 to 239: the record of one settlement whose page was parsed.\<close>

definition build_record ::
  "(string \<Rightarrow> date option) \<Rightarrow> nat \<Rightarrow> SettlementRecord \<Rightarrow> pyval \<Rightarrow>
   (pyfloat \<times> pyfloat) list \<Rightarrow> exn + ParsedSettlement" where
  "build_record fromiso idx settlement payload geom =
     (case py_get payload ''section_A/A1a_Last_Updated'' PNone of
        Inl e \<Rightarrow> Inl e
      | Inr updated \<Rightarrow>
     (case py_get payload ''section_A/A1_Profile_Date'' PNone of
        Inl e \<Rightarrow> Inl e
      | Inr profile \<Rightarrow>
     (case format_date fromiso (py_or updated profile) of
        Inl e \<Rightarrow> Inl e
      | Inr (formatted_date, yr) \<Rightarrow>
     (case derive_population payload of
        Inl e \<Rightarrow> Inl e
      | Inr pop \<Rightarrow>
     (case py_get payload ''section_B/B2b_Area_acres'' PNone of
        Inl e \<Rightarrow> Inl e
      | Inr av \<Rightarrow>
     (case safe_float av of
        Inl e \<Rightarrow> Inl e
      | Inr area \<Rightarrow>
     (case py_get payload ''section_C/C5_Structures_Total'' PNone of
        Inl e \<Rightarrow> Inl e
      | Inr stv \<Rightarrow>
     (case safe_int stv of
        Inl e \<Rightarrow> Inl e
      | Inr structs \<Rightarrow>
          Inr \<lparr>rec_id = idx, p_city = city settlement, p_name = name settlement,
               last_updated = formatted_date, year = yr, population = pop,
               area_acres = area, structures = structs, geometry = geom\<rparr>))))))))"

text \<open>\<open>time.sleep\<close> rejects a negative length.\<close>

definition time_sleep :: "real \<Rightarrow> exn + unit" where
  "time_sleep seconds =
     (if seconds < 0 then Inl (ValueError ''sleep length must be non-negative'') else Inr ())"

text \<open>
  What one pass of the loop body does with one settlement: a failure entry (the two
  \<open>except\<close> clauses), a record, or an exception that leaves the function.
  \<open>session.get\<close> is the parameter \<open>http_get\<close>; \<open>Inl\<close> is the message of the
  RequestException it raised.
\<close>

datatype outcome = Failure string | Success ParsedSettlement

definition process_item ::
  "(string \<Rightarrow> string + response) \<Rightarrow> (string \<Rightarrow> string + pyval) \<Rightarrow> (string \<Rightarrow> date option) \<Rightarrow>
   real \<Rightarrow> nat \<Rightarrow> SettlementRecord \<Rightarrow> exn + outcome" where
  "process_item http_get loads fromiso sleep_seconds idx settlement =
     (case http_get (url settlement) of
        Inl msg \<Rightarrow> Inr (Failure msg)
      | Inr resp \<Rightarrow>
          (case parse_settlement_page loads (body resp) of
             Inl exc \<Rightarrow> (case exc of ValueError msg \<Rightarrow> Inr (Failure msg) | other \<Rightarrow> Inl exc)
           | Inr (payload, geom) \<Rightarrow>
               (case build_record fromiso idx settlement payload geom of
                  Inl e \<Rightarrow> Inl e
                | Inr r \<Rightarrow>
                    (case time_sleep sleep_seconds of
                       Inl e \<Rightarrow> Inl e
                     | Inr u \<Rightarrow> Inr (Success r)))))"

text \<open>The \<open>for idx, settlement in enumerate(settlements, start=1)\<close> loop.\<close>

fun build_loop ::
  "(string \<Rightarrow> string + response) \<Rightarrow> (string \<Rightarrow> string + pyval) \<Rightarrow> (string \<Rightarrow> date option) \<Rightarrow>
   real \<Rightarrow> nat \<Rightarrow> SettlementRecord list \<Rightarrow>
   ParsedSettlement list \<Rightarrow> (SettlementRecord \<times> string) list \<Rightarrow>
   exn + (ParsedSettlement list \<times> (SettlementRecord \<times> string) list)" where
  "build_loop http_get loads fromiso sleep_seconds idx [] parsed failures =
     Inr (parsed, failures)"
| "build_loop http_get loads fromiso sleep_seconds idx (settlement # rest) parsed failures =
     (case process_item http_get loads fromiso sleep_seconds idx settlement of
        Inl e \<Rightarrow> Inl e
      | Inr (Failure msg) \<Rightarrow>
          build_loop http_get loads fromiso sleep_seconds (idx + 1) rest
            parsed (failures @ [(settlement, msg)])
      | Inr (Success r) \<Rightarrow>
          build_loop http_get loads fromiso sleep_seconds (idx + 1) rest
            (parsed @ [r]) failures)"

definition build_parsed_records ::
  "(string \<Rightarrow> string + response) \<Rightarrow> (string \<Rightarrow> string + pyval) \<Rightarrow> (string \<Rightarrow> date option) \<Rightarrow>
   SettlementRecord list \<Rightarrow> real \<Rightarrow>
   exn + (ParsedSettlement list \<times> (SettlementRecord \<times> string) list)" where
  "build_parsed_records http_get loads fromiso settlements sleep_seconds =
     build_loop http_get loads fromiso sleep_seconds 1 settlements [] []"


section \<open>Web map export (extract\_atlas\_of\_informality.py)\<close>

subsection \<open>\<open>mercator_to_lonlat\<close>\<close>

definition ORIGIN_SHIFT :: real where
  "ORIGIN_SHIFT = 2 * pi * 6378137 / 2"

text \<open>\<open>math.exp\<close> raises OverflowError when its result is out of double range.\<close>

definition math_exp :: "real \<Rightarrow> exn + real" where
  "math_exp v = (if DBL_OVERFLOW \<le> exp v then Inl (OverflowError ''math range error'')
                 else Inr (exp v))"

definition mercator_to_lonlat :: "real \<Rightarrow> real \<Rightarrow> exn + (real \<times> real)" where
  "mercator_to_lonlat x y =
     (let lon = (x / ORIGIN_SHIFT) * 180;
          lat = (y / ORIGIN_SHIFT) * 180
      in case math_exp (lat * pi / 180) of
           Inl e \<Rightarrow> Inl e
         | Inr ex \<Rightarrow> Inr (lon, 180 / pi * (2 * arctan ex - pi / 2)))"

text \<open>
  The coordinates come from JSON: the division by \<open>ORIGIN_SHIFT\<close> takes an int (a bool
  is an int) or a float and raises TypeError on anything else.
\<close>

definition py_number :: "pyval \<Rightarrow> exn + real" where
  "py_number v = (case v of
       PFloat r \<Rightarrow> Inr r
     | PInt i \<Rightarrow> (if DBL_OVERFLOW \<le> \<bar>real_of_int i\<bar>
                  then Inl (OverflowError ''int too large to convert to float'')
                  else Inr (real_of_int i))
     | PBool b \<Rightarrow> Inr (if b then 1 else 0)
     | other \<Rightarrow> Inl (TypeError ''unsupported operand type(s) for /''))"

definition mercator_of :: "pyval \<Rightarrow> pyval \<Rightarrow> exn + (real \<times> real)" where
  "mercator_of x y =
     (case py_number x of
        Inl e \<Rightarrow> Inl e
      | Inr xr \<Rightarrow> (case py_number y of Inl e \<Rightarrow> Inl e | Inr yr \<Rightarrow> mercator_to_lonlat xr yr))"

subsection \<open>\<open>sanitize_name\<close>\<close>

definition slug_char :: "char \<Rightarrow> bool" where
  "slug_char c = (if in_range CHR ''a'' CHR ''z'' c then True else in_range CHR ''0'' CHR ''9'' c)"

text \<open>\<open>re.sub(r"[^a-z0-9]+", "_", s)\<close>: every maximal run of other characters becomes one underscore.\<close>

fun sub_runs :: "bool \<Rightarrow> string \<Rightarrow> string" where
  "sub_runs in_run [] = []"
| "sub_runs in_run (c # cs) =
     (if slug_char c then c # sub_runs False cs
      else if in_run then sub_runs True cs
      else CHR ''_'' # sub_runs True cs)"

definition sanitize_name :: "string \<Rightarrow> string" where
  "sanitize_name nm =
     (let is_us = (\<lambda>c. c = CHR ''_'');
          slug = rev (dropWhile is_us (rev (dropWhile is_us (sub_runs False (py_lower nm)))))
      in if slug = [] then ''layer'' else slug)"

subsection \<open>\<open>convert_geometry\<close>\<close>

datatype geojson =
    Point "real \<times> real"
  | LineString "(real \<times> real) list"
  | MultiLineString "(real \<times> real) list list"
  | Polygon "(real \<times> real) list list"
  | MultiPolygon "(real \<times> real) list list list"

text \<open>\<open>d[key]\<close> with a string key.\<close>

definition py_getitem :: "pyval \<Rightarrow> string \<Rightarrow> exn + pyval" where
  "py_getitem d key = (case d of
       PDict kvs \<Rightarrow> (case map_of kvs key of Some v \<Rightarrow> Inr v | None \<Rightarrow> Inl (KeyError key))
     | other \<Rightarrow> Inl (TypeError ''indices must be integers''))"

text \<open>The inner loop \<open>for x, y in path\<close> (and \<open>for x, y in ring\<close>).\<close>

fun convert_points :: "pyval list \<Rightarrow> (real \<times> real) list \<Rightarrow> exn + (real \<times> real) list" where
  "convert_points [] line = Inr line"
| "convert_points (pt # pts) line =
     (case unpack2 pt of
        Inl e \<Rightarrow> Inl e
      | Inr (x, y) \<Rightarrow>
          (case mercator_of x y of
             Inl e \<Rightarrow> Inl e
           | Inr lonlat \<Rightarrow> convert_points pts (line @ [lonlat])))"

text \<open>
  The outer loop \<open>for path in paths\<close> (and \<open>for ring in rings\<close>, which has the same
  body): a converted part is kept when it is not empty.
\<close>

fun convert_parts ::
  "pyval list \<Rightarrow> (real \<times> real) list list \<Rightarrow> exn + (real \<times> real) list list" where
  "convert_parts [] converted = Inr converted"
| "convert_parts (part # parts) converted =
     (case py_iter part of
        Inl e \<Rightarrow> Inl e
      | Inr pts \<Rightarrow>
          (case convert_points pts [] of
             Inl e \<Rightarrow> Inl e
           | Inr line \<Rightarrow>
               convert_parts parts (if line \<noteq> [] then converted @ [line] else converted)))"

definition convert_geometry :: "pyval \<Rightarrow> pyval \<Rightarrow> exn + geojson option" where
  "convert_geometry geom geometry_type =
     (if \<not> py_truthy geom then Inr None
      else if geometry_type = PStr ''esriGeometryPoint'' then
        (case py_getitem geom ''x'' of
           Inl e \<Rightarrow> Inl e
         | Inr x \<Rightarrow>
        (case py_getitem geom ''y'' of
           Inl e \<Rightarrow> Inl e
         | Inr y \<Rightarrow>
        (case mercator_of x y of
           Inl e \<Rightarrow> Inl e
         | Inr lonlat \<Rightarrow> Inr (Some (Point lonlat)))))
      else if geometry_type = PStr ''esriGeometryPolyline'' then
        (case py_get geom ''paths'' (PList []) of
           Inl e \<Rightarrow> Inl e
         | Inr paths \<Rightarrow>
        (case py_iter paths of
           Inl e \<Rightarrow> Inl e
         | Inr path_list \<Rightarrow>
        (case convert_parts path_list [] of
           Inl e \<Rightarrow> Inl e
         | Inr line_strings \<Rightarrow>
             if line_strings = [] then Inr None
             else if length line_strings = 1 then Inr (Some (LineString (line_strings ! 0)))
             else Inr (Some (MultiLineString line_strings)))))
      else if geometry_type = PStr ''esriGeometryPolygon'' then
        (case py_get geom ''rings'' (PList []) of
           Inl e \<Rightarrow> Inl e
         | Inr rings \<Rightarrow>
        (case py_iter rings of
           Inl e \<Rightarrow> Inl e
         | Inr ring_list \<Rightarrow>
        (case convert_parts ring_list [] of
           Inl e \<Rightarrow> Inl e
         | Inr converted \<Rightarrow>
             if converted = [] then Inr None
             else if length converted = 1 then Inr (Some (Polygon converted))
             else Inr (Some (MultiPolygon (map (\<lambda>ring. [ring]) converted))))))
      else Inl (ValueError ''Unsupported geometry type''))"

subsection \<open>\<open>export_feature_collection\<close>\<close>

record feature =
  f_geometry :: geojson
  properties :: pyval

record feature_collection =
  features :: "feature list"
  source_app_id :: string
  source_layer_id :: pyval
  source_layer_title :: pyval
  geometry_type :: pyval
  feature_count :: nat

text \<open>The loop over the features of a layer; there is no \<open>try\<close> around the conversion.\<close>

fun features_loop :: "pyval list \<Rightarrow> pyval \<Rightarrow> feature list \<Rightarrow> exn + feature list" where
  "features_loop [] gtype geojson_features = Inr geojson_features"
| "features_loop (feat # feats) gtype geojson_features =
     (case py_get feat ''geometry'' (PDict []) of
        Inl e \<Rightarrow> Inl e
      | Inr g \<Rightarrow>
     (case convert_geometry g gtype of
        Inl e \<Rightarrow> Inl e
      | Inr None \<Rightarrow> features_loop feats gtype geojson_features
      | Inr (Some converted) \<Rightarrow>
          (case py_get feat ''attributes'' (PDict []) of
             Inl e \<Rightarrow> Inl e
           | Inr attrs \<Rightarrow>
               features_loop feats gtype
                 (geojson_features @
                  [\<lparr>f_geometry = converted, properties = py_or attrs (PDict [])\<rparr>]))))"

text \<open>
  \<open>layer_def.get("name") or layer.get("title") or layer.get("id") or "layer"\<close>: an operand
  is evaluated only when the ones before it are false.
\<close>

definition layer_name_of :: "pyval \<Rightarrow> pyval \<Rightarrow> exn + pyval" where
  "layer_name_of layer layer_def =
     (case py_get layer_def ''name'' PNone of
        Inl e \<Rightarrow> Inl e
      | Inr n \<Rightarrow>
          if py_truthy n then Inr n
          else (case py_get layer ''title'' PNone of
                  Inl e \<Rightarrow> Inl e
                | Inr t \<Rightarrow>
                    if py_truthy t then Inr t
                    else (case py_get layer ''id'' PNone of
                            Inl e \<Rightarrow> Inl e
                          | Inr i \<Rightarrow> Inr (py_or i (PStr ''layer'')))))"

text \<open>
  \<open>export_feature_collection\<close>: the result is the file name and the payload written
  to it, or None when no feature was converted. The output directory and the write
  itself are not modelled.
\<close>

definition export_feature_collection ::
  "pyval \<Rightarrow> pyval \<Rightarrow> string \<Rightarrow> exn + (string \<times> feature_collection) option" where
  "export_feature_collection layer fc_layer app_id =
     (case py_get fc_layer ''layerDefinition'' (PDict []) of
        Inl e \<Rightarrow> Inl e
      | Inr layer_def \<Rightarrow>
     (case py_get fc_layer ''featureSet'' (PDict []) of
        Inl e \<Rightarrow> Inl e
      | Inr feature_set \<Rightarrow>
     (case py_get layer_def ''geometryType'' PNone of
        Inl e \<Rightarrow> Inl e
      | Inr gtype \<Rightarrow>
     (case py_get feature_set ''features'' (PList []) of
        Inl e \<Rightarrow> Inl e
      | Inr feats \<Rightarrow>
     (case layer_name_of layer layer_def of
        Inl e \<Rightarrow> Inl e
      | Inr layer_name \<Rightarrow>
     (case layer_name of
        PStr nm \<Rightarrow>
          (let file_name = ''atlas_of_informality_'' @ sanitize_name nm @ ''.geojson'' in
           case py_iter feats of
             Inl e \<Rightarrow> Inl e
           | Inr feat_list \<Rightarrow>
          (case features_loop feat_list gtype [] of
             Inl e \<Rightarrow> Inl e
           | Inr geojson_features \<Rightarrow>
               if geojson_features = [] then Inr None
               else
                 (case py_get layer ''id'' PNone of
                    Inl e \<Rightarrow> Inl e
                  | Inr lid \<Rightarrow>
                 (case py_get layer ''title'' PNone of
                    Inl e \<Rightarrow> Inl e
                  | Inr ltitle \<Rightarrow>
                      Inr (Some (file_name,
                        \<lparr>features = geojson_features, source_app_id = app_id,
                         source_layer_id = lid, source_layer_title = ltitle,
                         geometry_type = gtype,
                         feature_count = length geojson_features\<rparr>))))))
      | other \<Rightarrow> Inl (AttributeError ''object has no attribute lower'')))))))"


subsection \<open>Auxiliary definitions for the statements\<close>


text \<open>
  Concrete inputs for the examples: a page with both assignments, a page without the
  geometry assignment, a decoder that agrees with \<open>json.loads\<close> on the two texts
  these pages embed, a fetch that serves the second page for the second settlement, and
  three settlements.
\<close>

definition page_ok :: string where
  "page_ok = ''<script>var settlement = {}; var shape = [[\"9.05\",\"7.49\"],[\"9.06\",\"7.50\"],[\"9.06\",\"7.49\"]];</script>''"

definition page_no_shape :: string where
  "page_no_shape = ''<script>var settlement = {};</script>''"

definition shape_strings :: "(string \<times> string) list" where
  "shape_strings = [(''9.05'', ''7.49''), (''9.06'', ''7.50''), (''9.06'', ''7.49'')]"

definition stub_loads :: "string \<Rightarrow> string + pyval" where
  "stub_loads s =
     (if s = ''{}'' then Inr (PDict [])
      else if s = ''[[\"9.05\",\"7.49\"],[\"9.06\",\"7.50\"],[\"9.06\",\"7.49\"]]''
      then Inr (PList (map (\<lambda>(lat_s, lon_s). PList [PStr lat_s, PStr lon_s]) shape_strings))
      else Inl ''Expecting value'')"

definition stub_get :: "string \<Rightarrow> string + response" where
  "stub_get u = Inr \<lparr>status_code = 200,
                     body = (if u = ''https://sdinet.org/settlement/2/20'' then page_no_shape
                             else page_ok)\<rparr>"

definition three_settlements :: "SettlementRecord list" where
  "three_settlements =
     [\<lparr>settlement_id = ''10'', city = ''Lagos'', name = ''A'', country = ''Nigeria'',
       url = ''https://sdinet.org/settlement/1/10''\<rparr>,
      \<lparr>settlement_id = ''20'', city = ''Lagos'', name = ''B'', country = ''Nigeria'',
       url = ''https://sdinet.org/settlement/2/20''\<rparr>,
      \<lparr>settlement_id = ''30'', city = ''Lagos'', name = ''C'', country = ''Nigeria'',
       url = ''https://sdinet.org/settlement/3/30''\<rparr>]"


definition multipoint_layer :: pyval where
  "multipoint_layer = PDict
     [(''layerDefinition'',
         PDict [(''geometryType'', PStr ''esriGeometryMultipoint''), (''name'', PStr ''Sites'')]),
      (''featureSet'', PDict [(''features'', PList
         [PDict [(''geometry'', PDict [(''points'', PList [PList [PInt 0, PInt 0]])]),
                 (''attributes'', PDict [(''n'', PInt 1)])],
          PDict [(''attributes'', PDict [(''n'', PInt 2)])]])])]"

text \<open>
  The result of the loop body for every settlement with its 1-based position, and the
  entries it contributes to the two lists.
\<close>

definition item_results ::
  "(string \<Rightarrow> string + response) \<Rightarrow> (string \<Rightarrow> string + pyval) \<Rightarrow> (string \<Rightarrow> date option) \<Rightarrow>
   real \<Rightarrow> nat \<Rightarrow> SettlementRecord list \<Rightarrow> (nat \<times> SettlementRecord \<times> (exn + outcome)) list" where
  "item_results http_get loads fromiso sleep_seconds start settlements =
     map (\<lambda>(i, s). (i, s, process_item http_get loads fromiso sleep_seconds i s))
       (List.enumerate start settlements)"

fun succ_of :: "nat \<times> SettlementRecord \<times> (exn + outcome) \<Rightarrow> ParsedSettlement list" where
  "succ_of (i, s, Inr (Success r)) = [r]"
| "succ_of (i, s, other) = []"

fun fail_of :: "nat \<times> SettlementRecord \<times> (exn + outcome) \<Rightarrow> (SettlementRecord \<times> string) list" where
  "fail_of (i, s, Inr (Failure msg)) = [(s, msg)]"
| "fail_of (i, s, other) = []"

fun succ_pos :: "nat \<times> SettlementRecord \<times> (exn + outcome) \<Rightarrow> nat list" where
  "succ_pos (i, s, Inr (Success r)) = [i]"
| "succ_pos (i, s, other) = []"

definition returned :: "nat \<times> SettlementRecord \<times> (exn + outcome) \<Rightarrow> bool" where
  "returned t = (case snd (snd t) of Inl e \<Rightarrow> False | Inr oc \<Rightarrow> True)"

definition stub_fromiso :: "string \<Rightarrow> date option" where
  "stub_fromiso t = None"

section \<open>Properties\<close>

subsection \<open>Evaluation of the coercions\<close>

lemmas float_defs =
  round_half_even_def py_strip_def py_isspace_def py_lower_def py_lower_char_def
  float_of_str_def split_sign_def parse_decimal_def parse_exponent_def is_digit_def
  digits_val_def digit_of_def to_double_def DBL_OVERFLOW_def

lemma round_half_even_half:
  "round_half_even (of_int n + 1 / 2) = (if even n then n else n + 1)"
proof -
  have "\<lfloor>of_int n + (1 / 2 :: real)\<rfloor> = n" by linarith
  then show ?thesis by (simp add: round_half_even_def)
qed

subsection \<open>Helper lemmas\<close>






lemma shape_loop_pairs:
  assumes "list_all (\<lambda>(a, b). float_of_str a \<noteq> None \<and> float_of_str b \<noteq> None) strs"
  shows "shape_loop (map (\<lambda>(a, b). PList [PStr a, PStr b]) strs) acc =
     Inr (acc @ map (\<lambda>(a, b). (the (float_of_str b), the (float_of_str a))) strs)"
  using assms
proof (induction strs arbitrary: acc)
  case Nil
  then show ?case by simp
next
  case (Cons p strs)
  obtain a b where p: "p = (a, b)" by (cases p)
  from Cons.prems p obtain lat lon where f: "float_of_str a = Some lat" "float_of_str b = Some lon"
    by auto
  from Cons.prems have rest: "list_all (\<lambda>(a, b). float_of_str a \<noteq> None \<and> float_of_str b \<noteq> None) strs"
    by simp
  show ?case
    using Cons.IH[OF rest, of "acc @ [(lon, lat)]"] p f
    by (simp add: unpack2_def py_iter_def py_float_def)
qed

lemma close_ring_take: "take (length g) (close_ring g) = g"
  by (simp add: close_ring_def)









lemma lat_arg: "(y / ORIGIN_SHIFT) * 180 * pi / 180 = y / 6378137"
  by (simp add: ORIGIN_SHIFT_def)



lemma exp_big: "DBL_OVERFLOW \<le> exp (10 ^ 10 / 6378137 :: real)"
proof -
  have "(2::real) \<le> exp 1" using exp_ge_add_one_self[of "1::real"] by simp
  then have "(2::real) ^ 1024 \<le> exp 1 ^ 1024" by (rule power_mono) simp
  also have "\<dots> = exp (1024 :: real)" using exp_of_nat_mult[of 1024 "1::real"] by simp
  also have "\<dots> \<le> exp (10 ^ 10 / 6378137 :: real)" by simp
  finally show ?thesis by (simp add: DBL_OVERFLOW_def)
qed

lemma regex_ok: "SETTLEMENT_RE page_ok = Some ''{}''"
  by (simp add: SETTLEMENT_RE_def regex_group_def page_ok_def)
lemma regex_ok2: "SHAPE_RE page_ok = Some ''[[\"9.05\",\"7.49\"],[\"9.06\",\"7.50\"],[\"9.06\",\"7.49\"]]''"
  by (simp add: SHAPE_RE_def regex_group_def page_ok_def)
lemma regex_no: "SETTLEMENT_RE page_no_shape = Some ''{}'' \<and> SHAPE_RE page_no_shape = None"
  by (simp add: SHAPE_RE_def SETTLEMENT_RE_def regex_group_def page_no_shape_def)
lemma shape_floats:
  "float_of_str ''9.05'' = Some (Fin 9.05) \<and> float_of_str ''7.49'' = Some (Fin 7.49)
   \<and> float_of_str ''9.06'' = Some (Fin 9.06) \<and> float_of_str ''7.50'' = Some (Fin 7.5)"
  by (simp add: float_defs)

lemma exp_extent: "y \<le> ORIGIN_SHIFT \<Longrightarrow> exp (y / 6378137) < DBL_OVERFLOW"
proof -
  assume "y \<le> ORIGIN_SHIFT"
  then have "y / 6378137 \<le> pi" by (simp add: ORIGIN_SHIFT_def field_simps)
  also have "pi \<le> 4" using pi_less_4 by simp
  finally have "exp (y / 6378137) \<le> exp (4::real)" by simp
  also have "exp (4::real) = exp 1 ^ 4" using exp_of_nat_mult[of 4 "1::real"] by simp
  also have "\<dots> \<le> 3 ^ 4" by (rule power_mono) (simp_all add: exp_le)
  finally show ?thesis by (simp add: DBL_OVERFLOW_def)
qed

lemma mercator_general:
  "mercator_to_lonlat x y =
     (if exp (y / 6378137) < DBL_OVERFLOW
      then Inr ((x / (pi * 6378137)) * 180,
                180 / pi * (2 * arctan (exp (((y / (pi * 6378137)) * 180) * pi / 180)) - pi / 2))
      else Inl (OverflowError ''math range error''))"
proof -
  have os: "ORIGIN_SHIFT = pi * 6378137" by (simp add: ORIGIN_SHIFT_def)
  have arg: "(y / (pi * 6378137)) * 180 * pi / 180 = y / 6378137" by simp
  show ?thesis
    unfolding mercator_to_lonlat_def math_exp_def Let_def os arg
    by (simp add: not_less)
qed



lemma features_loop_unsupported:
  assumes "gt \<noteq> PStr ''esriGeometryPoint''" and "gt \<noteq> PStr ''esriGeometryPolyline''"
    and "gt \<noteq> PStr ''esriGeometryPolygon''"
    and "list_all2 (\<lambda>feat g. py_get feat ''geometry'' (PDict []) = Inr g) feats geoms"
  shows "features_loop feats gt acc =
     (if list_ex py_truthy geoms then Inl (ValueError ''Unsupported geometry type'') else Inr acc)"
  using assms(4)
proof (induction feats geoms rule: list_all2_induct)
  case Nil
  then show ?case by simp
next
  case (Cons feat feats g geoms)
  then show ?case using assms(1-3) by (simp add: convert_geometry_def)
qed

subsection \<open>The claims\<close>

text \<open>
  C10. \<open>_safe_int\<close> rounds a value halfway between two integers to the even one:
  "2.5" gives 2 and "3.5" gives 4, and so does every finite float \<open>n + 1/2\<close>.
\<close>

theorem safe_int_half_to_even:
  "safe_int (PStr ''2.5'') = Inr (Some 2) \<and> safe_int (PStr ''3.5'') = Inr (Some 4)
   \<and> (\<forall>n. py_round (Fin (of_int n + 1 / 2)) = Inr (if even n then n else n + 1))"
  by (simp add: safe_int_def safe_float_def float_defs round_half_even_half)

text \<open>
  C6. \<open>_safe_int\<close> is not total: the string "inf" passes \<open>_safe_float\<close> as an
  infinity and \<open>round\<close> raises OverflowError outside any \<open>try\<close>; "-nan" raises
  ValueError there; and \<open>_safe_float\<close> itself raises OverflowError on an int beyond the
  double range, in the branch that is outside its \<open>try\<close>.
\<close>

theorem safe_int_raises:
  "safe_int (PStr ''inf'') = Inl (OverflowError ''cannot convert float infinity to integer'')
   \<and> safe_int (PStr ''-nan'') = Inl (ValueError ''cannot convert float NaN to integer'')
   \<and> safe_float (PInt (10 ^ 400)) = Inl (OverflowError ''int too large to convert to float'')"
  by (simp add: safe_int_def safe_float_def float_defs float_of_int_def)




text \<open>
  C9. For a coordinate array of [lat string, lon string] pairs whose strings are float
  literals, \<open>parse_settlement_page\<close> returns a ring whose i-th point is
  (float(lon string i), float(lat string i)): the values are parsed and swapped, and no
  projection is applied. (The ring may end with one more point, the closing one.)
\<close>

theorem parse_settlement_page_reorders:
  assumes "SETTLEMENT_RE html = Some sm" and "loads sm = Inr payload"
    and "SHAPE_RE html = Some shm"
    and "loads shm = Inr (PList (map (\<lambda>(lat_s, lon_s). PList [PStr lat_s, PStr lon_s]) strs))"
    and "list_all (\<lambda>(lat_s, lon_s). float_of_str lat_s \<noteq> None \<and> float_of_str lon_s \<noteq> None) strs"
  shows "\<exists>geom. parse_settlement_page loads html = Inr (payload, geom)
     \<and> take (length strs) geom =
         map (\<lambda>(lat_s, lon_s). (the (float_of_str lon_s), the (float_of_str lat_s))) strs
     \<and> (\<forall>i < length strs. geom ! i =
           (the (float_of_str (snd (strs ! i))), the (float_of_str (fst (strs ! i)))))"
proof -
  let ?g = "map (\<lambda>(lat_s, lon_s). (the (float_of_str lon_s), the (float_of_str lat_s))) strs"
  have loop: "shape_loop (map (\<lambda>(lat_s, lon_s). PList [PStr lat_s, PStr lon_s]) strs) [] = Inr ?g"
    using shape_loop_pairs[OF assms(5), of "[]"] by simp
  have res: "parse_settlement_page loads html = Inr (payload, close_ring ?g)"
    using assms(1-4) loop by (simp add: parse_settlement_page_def py_iter_def)
  have tk: "take (length strs) (close_ring ?g) = ?g"
    using close_ring_take[of ?g] by simp
  have nth: "\<forall>i < length strs. close_ring ?g ! i =
           (the (float_of_str (snd (strs ! i))), the (float_of_str (fst (strs ! i))))"
  proof (intro allI impI)
    fix i assume i: "i < length strs"
    have "close_ring ?g ! i = take (length strs) (close_ring ?g) ! i" using i by simp
    also have "\<dots> = ?g ! i" using tk by simp
    also have "\<dots> = (the (float_of_str (snd (strs ! i))), the (float_of_str (fst (strs ! i))))"
      using i by (simp add: case_prod_beta)
    finally show "close_ring ?g ! i =
           (the (float_of_str (snd (strs ! i))), the (float_of_str (fst (strs ! i))))" .
  qed
  from res tk nth show ?thesis by blast
qed

theorem parse_settlement_page_reorders_witness:
  "parse_settlement_page stub_loads page_ok =
     Inr (PDict [], [(Fin 7.49, Fin 9.05), (Fin 7.5, Fin 9.06), (Fin 7.49, Fin 9.06), (Fin 7.49, Fin 9.05)])"
proof -
  have l1: "stub_loads ''{}'' = Inr (PDict [])" by (simp add: stub_loads_def)
  have l2: "stub_loads ''[[\"9.05\",\"7.49\"],[\"9.06\",\"7.50\"],[\"9.06\",\"7.49\"]]'' =
    Inr (PList (map (\<lambda>(lat_s, lon_s). PList [PStr lat_s, PStr lon_s]) shape_strings))"
    by (simp add: stub_loads_def)
  have ok: "list_all (\<lambda>(lat_s, lon_s). float_of_str lat_s \<noteq> None \<and> float_of_str lon_s \<noteq> None) shape_strings"
    using shape_floats by (simp add: shape_strings_def)
  from parse_settlement_page_reorders[OF regex_ok l1 regex_ok2 l2 ok]
  obtain geom where g: "parse_settlement_page stub_loads page_ok = Inr (PDict [], geom)"
    by blast
  have "parse_settlement_page stub_loads page_ok =
     Inr (PDict [], close_ring [(Fin 7.49, Fin 9.05), (Fin 7.5, Fin 9.06), (Fin 7.49, Fin 9.06)])"
    using regex_ok regex_ok2 l1 l2 shape_floats
    by (simp add: parse_settlement_page_def py_iter_def shape_strings_def unpack2_def py_float_def)
  then show ?thesis using g by (simp add: close_ring_def point_ne_def float_ne_def)
qed

text \<open>
  C8, as stated, fails: \<open>mercator_to_lonlat\<close> has an error condition on finite
  input. At \<open>y = 1e10\<close> the argument of \<open>math.exp\<close> is about 1567.9 and the
  call raises OverflowError.
\<close>

theorem mercator_to_lonlat_overflow:
  "mercator_to_lonlat 0 (10 ^ 10) = Inl (OverflowError ''math range error'')"
  using exp_big by (simp add: mercator_general not_less)

text \<open>
  C8, amended. With \<open>R = pi * 6378137\<close> (the value of \<open>ORIGIN_SHIFT\<close>), for all
  finite \<open>x\<close> and \<open>y\<close>: when \<open>exp (y / 6378137)\<close> is within double range,
  which it is whenever \<open>y\<close> is at most \<open>R\<close>, the result is
  \<open>lon = (x / R) * 180\<close> and
  \<open>lat = 180 / pi * (2 * atan (exp (((y / R) * 180) * pi / 180)) - pi / 2)\<close>;
  otherwise \<open>math.exp\<close> raises OverflowError. The function is a function of its two
  arguments alone.
\<close>

theorem mercator_to_lonlat_formula:
  "mercator_to_lonlat x y =
     (if exp (y / 6378137) < DBL_OVERFLOW
      then Inr ((x / (pi * 6378137)) * 180,
                180 / pi * (2 * arctan (exp (((y / (pi * 6378137)) * 180) * pi / 180)) - pi / 2))
      else Inl (OverflowError ''math range error''))
   \<and> (y \<le> ORIGIN_SHIFT \<longrightarrow> exp (y / 6378137) < DBL_OVERFLOW)
   \<and> ORIGIN_SHIFT = pi * 6378137"
  using mercator_general exp_extent by (simp add: ORIGIN_SHIFT_def)

theorem mercator_to_lonlat_formula_witness:
  "mercator_to_lonlat 20037508 0 = Inr (20037508 / (pi * 6378137) * 180, 0)
   \<and> exp (0 / 6378137 :: real) < DBL_OVERFLOW"
proof -
  have "(0::real) \<le> ORIGIN_SHIFT" by (simp add: ORIGIN_SHIFT_def)
  with mercator_to_lonlat_formula[of 20037508 0] show ?thesis
    by (simp add: arctan_one)
qed






text \<open>
  C3, as stated, fails twice. \<open>convert_geometry\<close> returns None, and raises nothing,
  for an empty geometry whatever the discriminant; and \<open>export_feature_collection\<close>
  has no \<open>try\<close> around the conversion, so on a layer of multipoint features the
  ValueError of the first feature leaves the function: no feature is skipped and nothing
  is exported.
\<close>

theorem export_does_not_skip_unsupported:
  "convert_geometry (PDict []) (PStr ''esriGeometryMultipoint'') = Inr None
   \<and> export_feature_collection (PDict [(''id'', PStr ''sites'')]) multipoint_layer ''app'' =
       Inl (ValueError ''Unsupported geometry type'')"
  by (simp add: convert_geometry_def export_feature_collection_def multipoint_layer_def
      py_get_def py_iter_def layer_name_of_def)

text \<open>
  C3, amended. For a discriminant other than esriGeometryPoint, esriGeometryPolyline and
  esriGeometryPolygon, \<open>convert_geometry\<close> raises ValueError ("Unsupported geometry
  type") for every geometry that is not empty, and returns None for an empty one; it
  never converts such a geometry to another type. The discriminant is the layer's, and
  \<open>export_feature_collection\<close> does not catch the error: on such a layer the loop
  over the features raises it as soon as a feature has a geometry that is not empty, and
  so does \<open>export_feature_collection\<close>.
\<close>

theorem unsupported_geometry_raises:
  assumes "gt \<noteq> PStr ''esriGeometryPoint''" and "gt \<noteq> PStr ''esriGeometryPolyline''"
    and "gt \<noteq> PStr ''esriGeometryPolygon''"
  shows "(py_truthy g \<longrightarrow> convert_geometry g gt = Inl (ValueError ''Unsupported geometry type''))
    \<and> (\<not> py_truthy g \<longrightarrow> convert_geometry g gt = Inr None)
    \<and> (list_all2 (\<lambda>feat g. py_get feat ''geometry'' (PDict []) = Inr g) feats geoms \<longrightarrow>
         features_loop feats gt acc =
           (if list_ex py_truthy geoms then Inl (ValueError ''Unsupported geometry type'')
            else Inr acc))
    \<and> (py_get fc_layer ''layerDefinition'' (PDict []) = Inr layer_def
       \<and> py_get fc_layer ''featureSet'' (PDict []) = Inr feature_set
       \<and> py_get layer_def ''geometryType'' PNone = Inr gt
       \<and> py_get feature_set ''features'' (PList []) = Inr (PList feats)
       \<and> layer_name_of layer layer_def = Inr (PStr nm)
       \<and> list_all2 (\<lambda>feat g. py_get feat ''geometry'' (PDict []) = Inr g) feats geoms
       \<and> list_ex py_truthy geoms \<longrightarrow>
         export_feature_collection layer fc_layer app_id =
           Inl (ValueError ''Unsupported geometry type''))"
proof -
  have a: "py_truthy g \<longrightarrow> convert_geometry g gt = Inl (ValueError ''Unsupported geometry type'')"
    using assms by (simp add: convert_geometry_def)
  have b: "\<not> py_truthy g \<longrightarrow> convert_geometry g gt = Inr None"
    by (simp add: convert_geometry_def)
  have c: "list_all2 (\<lambda>feat g. py_get feat ''geometry'' (PDict []) = Inr g) feats geoms \<longrightarrow>
         features_loop feats gt acc =
           (if list_ex py_truthy geoms then Inl (ValueError ''Unsupported geometry type'')
            else Inr acc)"
    using features_loop_unsupported[OF assms] by blast
  have d: "py_get fc_layer ''layerDefinition'' (PDict []) = Inr layer_def
       \<and> py_get fc_layer ''featureSet'' (PDict []) = Inr feature_set
       \<and> py_get layer_def ''geometryType'' PNone = Inr gt
       \<and> py_get feature_set ''features'' (PList []) = Inr (PList feats)
       \<and> layer_name_of layer layer_def = Inr (PStr nm)
       \<and> list_all2 (\<lambda>feat g. py_get feat ''geometry'' (PDict []) = Inr g) feats geoms
       \<and> list_ex py_truthy geoms \<longrightarrow>
         export_feature_collection layer fc_layer app_id =
           Inl (ValueError ''Unsupported geometry type'')"
  proof
    assume h: "py_get fc_layer ''layerDefinition'' (PDict []) = Inr layer_def
       \<and> py_get fc_layer ''featureSet'' (PDict []) = Inr feature_set
       \<and> py_get layer_def ''geometryType'' PNone = Inr gt
       \<and> py_get feature_set ''features'' (PList []) = Inr (PList feats)
       \<and> layer_name_of layer layer_def = Inr (PStr nm)
       \<and> list_all2 (\<lambda>feat g. py_get feat ''geometry'' (PDict []) = Inr g) feats geoms
       \<and> list_ex py_truthy geoms"
    then have "features_loop feats gt [] = Inl (ValueError ''Unsupported geometry type'')"
      using features_loop_unsupported[OF assms, of feats geoms "[]"] by simp
    with h show "export_feature_collection layer fc_layer app_id =
           Inl (ValueError ''Unsupported geometry type'')"
      by (simp add: export_feature_collection_def py_iter_def)
  qed
  from a b c d show ?thesis by blast
qed

theorem unsupported_geometry_raises_witness:
  "convert_geometry (PDict [(''points'', PList [PList [PInt 0, PInt 0]])]) (PStr ''esriGeometryMultipoint'') =
     Inl (ValueError ''Unsupported geometry type'')
   \<and> convert_geometry PNone (PStr ''esriGeometryMultipoint'') = Inr None
   \<and> features_loop [PDict [(''attributes'', PDict [])], PDict [(''geometry'', PDict [])]]
        (PStr ''esriGeometryMultipoint'') [] = Inr []
   \<and> export_feature_collection (PDict [(''id'', PStr ''sites'')]) multipoint_layer ''app'' =
       Inl (ValueError ''Unsupported geometry type'')"
proof -
  have t: "PStr ''esriGeometryMultipoint'' \<noteq> PStr ''esriGeometryPoint''"
    "PStr ''esriGeometryMultipoint'' \<noteq> PStr ''esriGeometryPolyline''"
    "PStr ''esriGeometryMultipoint'' \<noteq> PStr ''esriGeometryPolygon''"
    by simp_all
  note th = unsupported_geometry_raises[OF t]
  show ?thesis
    using th[of "PDict [(''points'', PList [PList [PInt 0, PInt 0]])]"
          "[PDict [(''geometry'', PDict [(''points'', PList [PList [PInt 0, PInt 0]])]),
                     (''attributes'', PDict [(''n'', PInt 1)])],
              PDict [(''attributes'', PDict [(''n'', PInt 2)])]]"
          "[PDict [(''points'', PList [PList [PInt 0, PInt 0]])], PDict []]" "[]"
          multipoint_layer
          "PDict [(''geometryType'', PStr ''esriGeometryMultipoint''), (''name'', PStr ''Sites'')]"
          "PDict [(''features'', PList
             [PDict [(''geometry'', PDict [(''points'', PList [PList [PInt 0, PInt 0]])]),
                     (''attributes'', PDict [(''n'', PInt 1)])],
              PDict [(''attributes'', PDict [(''n'', PInt 2)])]])]"
          "PDict [(''id'', PStr ''sites'')]" "''Sites''" "''app''"]
      th[of PNone "[PDict [(''attributes'', PDict [])], PDict [(''geometry'', PDict [])]]"
          "[PDict [], PDict []]" "[]" PNone PNone PNone PNone "[]" "[]"]
    by (simp add: py_get_def multipoint_layer_def layer_name_of_def)
qed

end
